theory Spec2Isabelle
  imports
    Complex_Main
    "HOL-Library.Multiset"
    "HOL-Library.Sublist"
    "HOL-Library.List_Lexorder"
    "HOL-Library.Char_ord"
begin

section \<open>The order-line table\<close>

text \<open>
  \<^verbatim>\<open>Dashboard/dashboard.py\<close> reads one CSV file into a pandas frame and derives every chart
  from it. A frame is modelled as the list of its rows, in file order.

  A purchase timestamp is a timezone-naive instant, here the number of seconds since the
  epoch; a calendar date is the number of the day since the epoch, so that the difference
  of two dates is the \<^verbatim>\<open>.days\<close> of their \<^verbatim>\<open>timedelta\<close>. \<^verbatim>\<open>.dt.date\<close> drops the time of day.
\<close>

type_synonym timestamp = int
type_synonym date = int

definition dt_date :: "timestamp \<Rightarrow> date" where
  "dt_date t = t div 86400"

text \<open>
  \<^verbatim>\<open>read_csv\<close> turns an empty field into the missing value \<^verbatim>\<open>NaN\<close>, in a text column as in
  a numeric one: these columns are \<open>option\<close>s, \<open>None\<close> being \<^verbatim>\<open>NaN\<close>. The purchase timestamp
  is taken as parsed (lines 105-106); a frame with a row that has none is outside the
  model. Amounts are exact decimals (\<open>rat\<close>); the rounding of \<^verbatim>\<open>float64\<close> sums is not
  modelled.
\<close>

record row =
  order_id :: "string option"
  customer_id :: "string option"
  customer_unique_id :: "string option"
  customer_state :: "string option"
  product_id :: "string option"
  order_status :: "string option"
  payment_type :: "string option"
  price :: "rat option"
  freight_value :: "rat option"
  order_purchase_timestamp :: timestamp

text \<open>
  Line 108: \<^verbatim>\<open>df["total_price"] = df["price"] + df["freight_value"]\<close>. The column is
  computed from the two others of the same row, and is missing when one of them is.
\<close>

definition total_price :: "row \<Rightarrow> rat option" where
  "total_price r =
     (case price r of
        None \<Rightarrow> None
      | Some p \<Rightarrow> (case freight_value r of None \<Rightarrow> None | Some f \<Rightarrow> Some (p + f)))"

definition purchase_date :: "row \<Rightarrow> date" where
  "purchase_date r = dt_date (order_purchase_timestamp r)"


section \<open>The pandas operations the script calls\<close>

text \<open>The values of a column that are present, in row order.\<close>

fun present :: "'a option list \<Rightarrow> 'a list" where
  "present [] = []"
| "present (None # xs) = present xs"
| "present (Some x # xs) = x # present xs"

text \<open>\<^verbatim>\<open>nunique\<close> (\<^verbatim>\<open>dropna=True\<close>): the number of distinct present values.\<close>

definition nunique :: "'a option list \<Rightarrow> nat" where
  "nunique col = length (remdups (present col))"

text \<open>\<^verbatim>\<open>sum\<close> (\<^verbatim>\<open>skipna=True\<close>, \<^verbatim>\<open>min_count=0\<close>): missing values are skipped, the empty sum is 0.\<close>

definition sum_skipna :: "rat option list \<Rightarrow> rat" where
  "sum_skipna col = sum_list (present col)"

text \<open>
  \<^verbatim>\<open>max\<close> and \<^verbatim>\<open>min\<close> of a series without missing values; on the empty series pandas
  returns the missing value and does not raise.
\<close>

fun series_max :: "int list \<Rightarrow> int option" where
  "series_max [] = None"
| "series_max (x # xs) = Some (fold max xs x)"

fun series_min :: "int list \<Rightarrow> int option" where
  "series_min [] = None"
| "series_min (x # xs) = Some (fold min xs x)"

text \<open>The distinct values of a list in the order of their first occurrence.\<close>

definition unique :: "'a list \<Rightarrow> 'a list" where
  "unique xs = rev (remdups (rev xs))"

text \<open>
  \<^verbatim>\<open>groupby(key)\<close> with its defaults \<^verbatim>\<open>sort=True, dropna=True\<close>: one group per distinct
  present key, the groups in ascending key order, each holding its rows in frame order.
  A row whose key is missing belongs to no group.
\<close>

definition groupby :: "('r \<Rightarrow> 'k::linorder option) \<Rightarrow> 'r list \<Rightarrow> ('k \<times> 'r list) list" where
  "groupby key df =
     map (\<lambda>k. (k, filter (\<lambda>r. key r = Some k) df)) (sort (remdups (present (map key df))))"

text \<open>
  \<^verbatim>\<open>resample(rule='D', on='order_purchase_timestamp')\<close>: one bin per calendar day from the
  day of the earliest row to the day of the latest row of the frame it is given, the days
  without a row included; no bin at all for the empty frame.
\<close>

definition resample_D :: "row list \<Rightarrow> (date \<times> row list) list" where
  "resample_D df =
     (case series_min (map purchase_date df) of
        None \<Rightarrow> []
      | Some lo \<Rightarrow>
          (case series_max (map purchase_date df) of
             None \<Rightarrow> []
           | Some hi \<Rightarrow> map (\<lambda>d. (d, filter (\<lambda>r. purchase_date r = d) df)) [lo..hi]))"

text \<open>
  \<^verbatim>\<open>sort_values(col, ascending=False)\<close>. pandas reverses the rows, sorts them ascending and
  reverses the result. The sort is numpy's default \<^verbatim>\<open>quicksort\<close>, which promises no order
  for equal keys; \<open>sort_key\<close> keeps them in the order they come in. Nothing proved below
  for all frames depends on how equal keys come out.
\<close>

definition sort_values_desc :: "('a \<Rightarrow> 'k::linorder) \<Rightarrow> 'a list \<Rightarrow> 'a list" where
  "sort_values_desc col xs = rev (sort_key col (rev xs))"




section \<open>What can be raised\<close>

text \<open>
  The three ways in which the lines modelled here stop: a module-level name that was never
  bound (\<open>NameError\<close>), the subtraction of line 89 on an operand that is not a date
  (\<open>TypeError\<close>), and a chart drawn from a series without entries (\<open>PlotError\<close>, for
  the exception that the drawing call raises).
\<close>

datatype error = NameError | TypeError | PlotError


section \<open>The date-range filter (lines 122-123)\<close>

definition date_mask :: "date \<Rightarrow> date \<Rightarrow> row \<Rightarrow> bool" where
  "date_mask start_date end_date r \<longleftrightarrow>
     purchase_date r \<ge> start_date \<and> purchase_date r \<le> end_date"

definition filter_date_range :: "row list \<Rightarrow> date \<Rightarrow> date \<Rightarrow> row list" where
  "filter_date_range df start_date end_date = filter (date_mask start_date end_date) df"

text \<open>
  \<open>filter_date_range\<close> is the expression of lines 122-123 on the frame it is applied to.
  In the script that frame is the module-level name \<^verbatim>\<open>df\<close>. The names of the module are a
  map from names to frames; reading a name that was never bound raises \<^verbatim>\<open>NameError\<close>.
\<close>

type_synonym globals = "string \<rightharpoonup> row list"

definition read_name :: "globals \<Rightarrow> string \<Rightarrow> error + row list" where
  "read_name g name = (case g name of None \<Rightarrow> Inl NameError | Some frame \<Rightarrow> Inr frame)"

text \<open>
  Lines 95 to 123, from the table of the file to \<^verbatim>\<open>main_df\<close>. Line 95 binds the table to
  \<^verbatim>\<open>all_df\<close>. Line 106, in the first turn of its loop, reads \<^verbatim>\<open>df\<close>, and so do lines 108,
  110, 111 and 122; no statement of the module binds that name (the \<^verbatim>\<open>df\<close> of lines 25 to
  93 are parameters of the functions). The first read decides: when it raises the script
  stops there, and otherwise the later lines read the same frame.
\<close>

definition script :: "row list \<Rightarrow> date \<Rightarrow> date \<Rightarrow> error + row list" where
  "script csv start_date end_date =
     (let g = [''all_df'' \<mapsto> csv]
      in case read_name g ''df'' of
           Inl e \<Rightarrow> Inl e
         | Inr df \<Rightarrow> Inr (filter_date_range df start_date end_date))"


section \<open>The aggregators (lines 25-93)\<close>

text \<open>
  \<^verbatim>\<open>create_daily_orders_df\<close>. The day column keeps the name \<^verbatim>\<open>order_purchase_timestamp\<close>
  in the source; it is \<open>purchase_day\<close> here.
\<close>

record daily_row =
  purchase_day :: date
  order_count :: nat
  revenue :: rat

definition create_daily_orders_df :: "row list \<Rightarrow> daily_row list" where
  "create_daily_orders_df df =
     map (\<lambda>(d, rows).
            \<lparr>purchase_day = d,
             order_count = nunique (map order_id rows),
             revenue = sum_skipna (map total_price rows)\<rparr>)
         (resample_D df)"

text \<open>
  \<^verbatim>\<open>create_sum_freight_items_df\<close>: pairs of \<^verbatim>\<open>product_id\<close> and \<^verbatim>\<open>freight_value\<close>.
  \<open>freight_items_df\<close> is the frame of lines 38-40, before line 41 sorts it.
\<close>

definition freight_items_df :: "row list \<Rightarrow> (string \<times> rat) list" where
  "freight_items_df df =
     map (\<lambda>(p, rows). (p, sum_skipna (map freight_value rows))) (groupby product_id df)"

definition create_sum_freight_items_df :: "row list \<Rightarrow> (string \<times> rat) list" where
  "create_sum_freight_items_df df = sort_values_desc snd (freight_items_df df)"

text \<open>\<^verbatim>\<open>create_bystate_df\<close>: pairs of \<^verbatim>\<open>customer_state\<close> and \<^verbatim>\<open>customer_count\<close>.\<close>

definition create_bystate_df :: "row list \<Rightarrow> (string \<times> nat) list" where
  "create_bystate_df df =
     map (\<lambda>(s, rows). (s, nunique (map customer_id rows))) (groupby customer_state df)"






text \<open>
  \<^verbatim>\<open>create_rfm_df\<close>. Lines 81-86 aggregate each customer's rows; line 88 takes the latest
  purchase date of the whole frame, which is the missing value on the empty frame; line
  89 applies \<^verbatim>\<open>lambda x: (recent_date - x).days\<close> to each customer's latest date, and that
  subtraction raises when an operand is not a date. \<open>create_rfm_df\<close> is the table the
  function returns; what line 92 does to the figures of pyplot follows further below.
\<close>

record rfm_row =
  rfm_customer_id :: string
  frequency :: nat
  monetary :: rat
  recency :: int

definition rfm_groups :: "row list \<Rightarrow> (string \<times> timestamp option \<times> nat \<times> rat) list" where
  "rfm_groups df =
     map (\<lambda>(c, rows).
            (c,
             series_max (map order_purchase_timestamp rows),
             nunique (map order_id rows),
             sum_skipna (map total_price rows)))
         (groupby customer_unique_id df)"

definition recent_date :: "row list \<Rightarrow> date option" where
  "recent_date df = series_max (map purchase_date df)"

fun days_since :: "date option \<Rightarrow> date option \<Rightarrow> error + int" where
  "days_since (Some recent) (Some x) = Inr (recent - x)"
| "days_since _ _ = Inl TypeError"

text \<open>\<^verbatim>\<open>Series.apply\<close>: the function on each element in turn, stopping at the first raise.\<close>

fun apply_each :: "('a \<Rightarrow> error + 'b) \<Rightarrow> 'a list \<Rightarrow> error + 'b list" where
  "apply_each f [] = Inr []"
| "apply_each f (x # xs) =
     (case f x of
        Inl e \<Rightarrow> Inl e
      | Inr y \<Rightarrow> (case apply_each f xs of Inl e \<Rightarrow> Inl e | Inr ys \<Rightarrow> Inr (y # ys)))"

definition rfm_of :: "date option \<Rightarrow> string \<times> timestamp option \<times> nat \<times> rat \<Rightarrow> error + rfm_row" where
  "rfm_of recent g =
     (case g of (c, mx, f, m) \<Rightarrow>
        (case days_since recent (map_option dt_date mx) of
           Inl e \<Rightarrow> Inl e
         | Inr days \<Rightarrow>
             Inr \<lparr>rfm_customer_id = c, frequency = f, monetary = m, recency = days\<rparr>))"

definition create_rfm_df :: "row list \<Rightarrow> error + rfm_row list" where
  "create_rfm_df df = apply_each (rfm_of (recent_date df)) (rfm_groups df)"


section \<open>The figures of pyplot\<close>










section \<open>The freight rollup as the specification words it\<close>

text \<open>
  Section 4.3 of the specification asks for the products in the order in which the frame
  first mentions them, sorted by a stable descending sort. This second definition follows
  those words; it is compared with \<open>create_sum_freight_items_df\<close> below and nothing else
  depends on it.
\<close>

definition freight_rollup_as_specified :: "row list \<Rightarrow> (string \<times> rat) list" where
  "freight_rollup_as_specified df =
     rev (sort_key snd (rev
       (map (\<lambda>p. (p, sum_skipna (map freight_value (filter (\<lambda>r. product_id r = Some p) df))))
            (unique (present (map product_id df))))))"


section \<open>Sample frames\<close>

text \<open>A row with every column present, delivered and paid by card.\<close>

definition order_line ::
  "string \<Rightarrow> string \<Rightarrow> string \<Rightarrow> string \<Rightarrow> rat \<Rightarrow> rat \<Rightarrow> timestamp \<Rightarrow> row" where
  "order_line oid cust st pid p f t =
     \<lparr>order_id = Some oid, customer_id = Some cust, customer_unique_id = Some cust,
      customer_state = Some st, product_id = Some pid,
      order_status = Some ''delivered'', payment_type = Some ''credit_card'',
      price = Some p, freight_value = Some f, order_purchase_timestamp = t\<rparr>"

text \<open>
  Three orders of two customers: order \<open>o1\<close> has two items, bought on 2018-01-01 at 10:00
  (day 17532); \<open>o2\<close> is of 2018-01-03 (day 17534) and \<open>o3\<close> of 2018-01-05 (day 17536),
  both at 09:00. Nothing was bought on the two days in between.
\<close>

definition sample_df :: "row list" where
  "sample_df =
     [order_line ''o1'' ''c1'' ''SP'' ''pb'' 40 10 1514800800,
      order_line ''o1'' ''c1'' ''SP'' ''pa'' 20 10 1514800800,
      order_line ''o2'' ''c2'' ''RJ'' ''pa'' 15 5 1514970000,
      order_line ''o3'' ''c1'' ''SP'' ''pb'' 25 5 1515142800]"

text \<open>Two products with the same freight, \<open>pb\<close> mentioned before \<open>pa\<close>.\<close>

definition tie_df :: "row list" where
  "tie_df =
     [order_line ''o1'' ''c1'' ''SP'' ''pb'' 40 10 1514800800,
      order_line ''o2'' ''c2'' ''RJ'' ''pa'' 15 10 1514970000]"

text \<open>Two customers, the second without a state code in the file.\<close>

definition missing_state_df :: "row list" where
  "missing_state_df =
     [order_line ''o1'' ''c1'' ''SP'' ''pb'' 40 10 1514800800,
      (order_line ''o2'' ''c2'' ''RJ'' ''pa'' 15 5 1514970000)\<lparr>customer_state := None\<rparr>]"

text \<open>
  Two purchases, of 2018-01-01 and of 2018-01-05; the file does not say who made the
  second one.
\<close>

definition missing_customer_df :: "row list" where
  "missing_customer_df =
     [order_line ''o1'' ''c1'' ''SP'' ''pb'' 40 10 1514800800,
      (order_line ''o3'' ''c2'' ''RJ'' ''pa'' 25 5 1515142800)\<lparr>customer_unique_id := None\<rparr>]"



section \<open>Facts about the pandas operations\<close>

lemma set_present: "set (present xs) = {x. Some x \<in> set xs}"
  by (induction xs rule: present.induct) auto

lemma length_present_le: "length (present xs) \<le> length xs"
  by (induction xs rule: present.induct) auto

lemma length_present_map_full:
  assumes "\<forall>x \<in> set xs. f x \<noteq> None"
  shows "length (present (map f xs)) = length xs"
  using assms by (induction xs) auto




lemma nunique_card: "nunique col = card {v. Some v \<in> set col}"
  by (simp add: nunique_def length_remdups_card_conv set_present)

lemma sum_skipna_map:
  "sum_skipna (map g xs) = (\<Sum>x\<leftarrow>xs. case g x of None \<Rightarrow> 0 | Some v \<Rightarrow> v)"
  unfolding sum_skipna_def by (induction xs) (auto split: option.splits)

lemma series_max_Cons: "series_max (x # xs) = Some (Max (set (x # xs)))"
  by (simp only: series_max.simps Max.set_eq_fold)

lemma series_max_eq: "xs \<noteq> [] \<Longrightarrow> series_max xs = Some (Max (set xs))"
  using series_max_Cons by (cases xs) blast+

lemma series_min_Cons: "series_min (x # xs) = Some (Min (set (x # xs)))"
  by (simp only: series_min.simps Min.set_eq_fold)

lemma series_min_eq: "xs \<noteq> [] \<Longrightarrow> series_min xs = Some (Min (set xs))"
  using series_min_Cons by (cases xs) blast+



subsection \<open>Grouping\<close>


lemma groupby_keys: "map fst (groupby key df) = sort (remdups (present (map key df)))"
  by (simp add: groupby_def comp_def)

lemma set_groupby_keys: "set (map fst (groupby key df)) = {k. \<exists>r \<in> set df. key r = Some k}"
  by (force simp: groupby_keys set_present)

lemma distinct_groupby_keys: "distinct (map fst (groupby key df))"
  by (simp add: groupby_keys)

lemma groupby_member:
  "(k, rows) \<in> set (groupby key df) \<longleftrightarrow>
     (\<exists>r \<in> set df. key r = Some k) \<and> rows = filter (\<lambda>r. key r = Some k) df"
  by (force simp: groupby_def set_present)

lemma filter_eq_singleton:
  assumes "distinct xs" and "k \<in> set xs"
  shows "filter (\<lambda>x. x = k) xs = [k]"
  using assms by (induction xs) (auto simp: filter_empty_conv)

lemma groupby_filter_key:
  assumes "r \<in> set df" and "key r = Some k"
  shows "filter (\<lambda>g. fst g = k) (groupby key df) = [(k, filter (\<lambda>r. key r = Some k) df)]"
proof -
  have "k \<in> set (sort (remdups (present (map key df))))"
    using assms by (force simp: set_present)
  then have "filter (\<lambda>x. x = k) (sort (remdups (present (map key df)))) = [k]"
    by (intro filter_eq_singleton) simp_all
  then show ?thesis
    by (simp add: groupby_def filter_map comp_def)
qed

subsection \<open>Sorting by a column, largest first\<close>

lemma mset_sort_values_desc: "mset (sort_values_desc col xs) = mset xs"
  by (simp add: sort_values_desc_def)

lemma set_sort_values_desc: "set (sort_values_desc col xs) = set xs"
  by (simp add: sort_values_desc_def)

lemma sorted_sort_values_desc:
  "sorted_wrt (\<lambda>a b. col b \<le> col a) (sort_values_desc col xs)"
proof -
  have "sorted (map col (sort_key col (rev xs)))"
    by simp
  then have "sorted_wrt (\<lambda>a b. col a \<le> col b) (sort_key col (rev xs))"
    by (simp add: sorted_map)
  then show ?thesis
    by (simp add: sort_values_desc_def sorted_wrt_rev)
qed

lemma distinct_map_sort_values_desc:
  "distinct (map f (sort_values_desc col xs)) \<longleftrightarrow> distinct (map f xs)"
proof -
  have "mset (map f (sort_values_desc col xs)) = mset (map f xs)"
    by (simp add: mset_sort_values_desc)
  then show ?thesis
    by (rule mset_eq_imp_distinct_iff)
qed


subsection \<open>Counting values\<close>





subsection \<open>Sums over bins\<close>

lemma sum_list_indicator:
  fixes c :: "'b::comm_monoid_add"
  assumes "distinct ds"
  shows "(\<Sum>d\<leftarrow>ds. if k = d then c else 0) = (if k \<in> set ds then c else 0)"
  using assms by (induction ds) auto

lemma sum_by_bins:
  fixes v :: "'a \<Rightarrow> 'b::comm_monoid_add"
  assumes "distinct ds" and "f ` set xs \<subseteq> set ds"
  shows "(\<Sum>d\<leftarrow>ds. sum_list (map v (filter (\<lambda>x. f x = d) xs))) = sum_list (map v xs)"
  using assms(2)
proof (induction xs)
  case Nil
  show ?case by simp
next
  case (Cons x xs)
  have "(\<Sum>d\<leftarrow>ds. sum_list (map v (filter (\<lambda>y. f y = d) (x # xs))))
      = (\<Sum>d\<leftarrow>ds. (if f x = d then v x else 0) + sum_list (map v (filter (\<lambda>y. f y = d) xs)))"
    by (rule arg_cong [where f = sum_list]) auto
  also have "\<dots> = (\<Sum>d\<leftarrow>ds. if f x = d then v x else 0)
                  + (\<Sum>d\<leftarrow>ds. sum_list (map v (filter (\<lambda>y. f y = d) xs)))"
    by (rule sum_list_addf)
  also have "\<dots> = v x + sum_list (map v xs)"
    using Cons assms(1) by (simp add: sum_list_indicator)
  finally show ?case by simp
qed


section \<open>The daily rollup\<close>

lemma create_daily_orders_df_Nil: "create_daily_orders_df [] = []"
  by (simp add: create_daily_orders_df_def resample_D_def)

lemma resample_D_eq:
  assumes "df \<noteq> []"
  shows "resample_D df =
           map (\<lambda>d. (d, filter (\<lambda>r. purchase_date r = d) df))
               [Min (purchase_date ` set df)..Max (purchase_date ` set df)]"
proof -
  have "map purchase_date df \<noteq> []"
    using assms by simp
  then have "series_min (map purchase_date df) = Some (Min (purchase_date ` set df))"
    and "series_max (map purchase_date df) = Some (Max (purchase_date ` set df))"
    using series_min_eq [of "map purchase_date df"] series_max_eq [of "map purchase_date df"]
    by simp_all
  then show ?thesis
    by (simp add: resample_D_def)
qed

lemma create_daily_orders_df_eq:
  assumes "df \<noteq> []"
  shows "create_daily_orders_df df =
           map (\<lambda>d. \<lparr>purchase_day = d,
                      order_count = nunique (map order_id (filter (\<lambda>r. purchase_date r = d) df)),
                      revenue = sum_skipna (map total_price (filter (\<lambda>r. purchase_date r = d) df))\<rparr>)
               [Min (purchase_date ` set df)..Max (purchase_date ` set df)]"
  by (simp add: create_daily_orders_df_def resample_D_eq [OF assms] comp_def)

lemma filter_date_range_bounds:
  assumes "r \<in> set (filter_date_range df start_date end_date)"
  shows "start_date \<le> purchase_date r \<and> purchase_date r \<le> end_date"
  using assms by (simp add: filter_date_range_def date_mask_def)

lemma sample_daily_rollup:
  "create_daily_orders_df sample_df =
     [\<lparr>purchase_day = 17532, order_count = 1, revenue = 80\<rparr>,
      \<lparr>purchase_day = 17533, order_count = 0, revenue = 0\<rparr>,
      \<lparr>purchase_day = 17534, order_count = 1, revenue = 20\<rparr>,
      \<lparr>purchase_day = 17535, order_count = 0, revenue = 0\<rparr>,
      \<lparr>purchase_day = 17536, order_count = 1, revenue = 30\<rparr>]"
  by code_simp

text \<open>
  Claim C1 says that a filter range of N calendar days gives a rollup of N entries, one per
  day of the range. \<open>create_daily_orders_df\<close> is given the filtered rows only, never the
  two bounds, and \<^verbatim>\<open>resample\<close> starts at the first day that has a row and stops at the last.
  The range from 2018-01-02 to 2018-01-04 has three days; the sample has a purchase on the
  middle one only, and the rollup has that one entry.
\<close>

theorem daily_rollup_misses_edge_days:
  "create_daily_orders_df (filter_date_range sample_df 17533 17535)
     = [\<lparr>purchase_day = 17534, order_count = 1, revenue = 20\<rparr>]
   \<and> length (create_daily_orders_df (filter_date_range sample_df 17533 17535))
       \<noteq> nat (17535 - 17533 + 1)"
  by code_simp

text \<open>
  Claim C1, as the code has it. For a filter range that selects at least one row, the
  rollup has exactly one entry per calendar day from the earliest to the latest purchase
  day among the selected rows, in ascending order; both days lie inside the filter range,
  and an entry whose day has no selected row has \<open>order_count = 0\<close> and \<open>revenue = 0\<close>.
\<close>

theorem daily_rollup_spans_purchase_days:
  assumes "w = filter_date_range df start_date end_date" and "w \<noteq> []"
  shows "map purchase_day (create_daily_orders_df w)
           = [Min (purchase_date ` set w)..Max (purchase_date ` set w)]
       \<and> int (length (create_daily_orders_df w))
           = Max (purchase_date ` set w) - Min (purchase_date ` set w) + 1
       \<and> sorted (map purchase_day (create_daily_orders_df w))
       \<and> start_date \<le> Min (purchase_date ` set w)
       \<and> Max (purchase_date ` set w) \<le> end_date
       \<and> (\<forall>e \<in> set (create_daily_orders_df w).
             (\<forall>r \<in> set w. purchase_date r \<noteq> purchase_day e)
               \<longrightarrow> order_count e = 0 \<and> revenue e = 0)"
proof -
  let ?lo = "Min (purchase_date ` set w)" and ?hi = "Max (purchase_date ` set w)"
  have fin: "finite (purchase_date ` set w)" and ne: "purchase_date ` set w \<noteq> {}"
    using assms(2) by simp_all
  have days: "map purchase_day (create_daily_orders_df w) = [?lo..?hi]"
    by (simp add: create_daily_orders_df_eq [OF assms(2)] comp_def)
  have "?lo \<in> purchase_date ` set w" and "?hi \<in> purchase_date ` set w"
    using fin ne by (rule Min_in, rule Max_in)
  then have bounds: "start_date \<le> ?lo" "?hi \<le> end_date"
    using filter_date_range_bounds [of _ df start_date end_date] assms(1) by auto
  have "?lo \<le> ?hi"
    using fin ne by (meson Max_in Min_le)
  then have len: "int (length (create_daily_orders_df w)) = ?hi - ?lo + 1"
    using arg_cong [OF days, of length] by simp
  have srt: "sorted (map purchase_day (create_daily_orders_df w))"
    by (simp only: days sorted_upto)
  have zero: "order_count e = 0 \<and> revenue e = 0"
    if "e \<in> set (create_daily_orders_df w)" and "\<forall>r \<in> set w. purchase_date r \<noteq> purchase_day e"
    for e
  proof -
    from that(1) obtain d where e: "e = \<lparr>purchase_day = d,
        order_count = nunique (map order_id (filter (\<lambda>r. purchase_date r = d) w)),
        revenue = sum_skipna (map total_price (filter (\<lambda>r. purchase_date r = d) w))\<rparr>"
      by (auto simp: create_daily_orders_df_eq [OF assms(2)])
    then have "filter (\<lambda>r. purchase_date r = d) w = []"
      using that(2) by (auto simp: filter_empty_conv)
    then show ?thesis
      by (simp add: e nunique_def sum_skipna_def)
  qed
  show ?thesis
    using days len srt bounds zero by blast
qed

text \<open>
  Witness for C1: the whole of January 1st to 5th selects the four sample rows; the first
  and the last day have a purchase, and the rollup covers the five days.
\<close>

theorem daily_rollup_spans_purchase_days_witness:
  "filter_date_range sample_df 17532 17536 \<noteq> []
   \<and> map purchase_day (create_daily_orders_df (filter_date_range sample_df 17532 17536))
       = [Min (purchase_date ` set (filter_date_range sample_df 17532 17536))..
          Max (purchase_date ` set (filter_date_range sample_df 17532 17536))]
   \<and> int (length (create_daily_orders_df (filter_date_range sample_df 17532 17536)))
       = Max (purchase_date ` set (filter_date_range sample_df 17532 17536))
         - Min (purchase_date ` set (filter_date_range sample_df 17532 17536)) + 1
   \<and> 17532 \<le> Min (purchase_date ` set (filter_date_range sample_df 17532 17536))
   \<and> Max (purchase_date ` set (filter_date_range sample_df 17532 17536)) \<le> 17536"
proof -
  have h: "filter_date_range sample_df 17532 17536 \<noteq> []"
    by code_simp
  show ?thesis
    using h daily_rollup_spans_purchase_days [OF refl h] by blast
qed

text \<open>
  Every row falls into exactly one bin, since the bins run from the earliest to the latest
  purchase day. With amounts added exactly, as they are here, the revenues of the days
  therefore add up to the sum over the rows. The script adds \<^verbatim>\<open>float64\<close> values, each
  addition rounded, the rows of a day first and the days afterwards: for such sums the
  lemma says nothing, and 0.1 on one day with 0.2 and 0.3 on the next already gives 0.6
  by days against 0.6000000000000001 by rows.
\<close>

lemma daily_revenue_sum_exact:
  "sum_list (map revenue (create_daily_orders_df df)) = sum_skipna (map total_price df)"
proof (cases "df = []")
  case True
  then show ?thesis
    by (simp add: create_daily_orders_df_Nil sum_skipna_def)
next
  case False
  let ?lo = "Min (purchase_date ` set df)" and ?hi = "Max (purchase_date ` set df)"
  let ?v = "\<lambda>r. case total_price r of None \<Rightarrow> 0 | Some v \<Rightarrow> v"
  have "purchase_date ` set df \<subseteq> set [?lo..?hi]"
    by auto
  then have "(\<Sum>d\<leftarrow>[?lo..?hi]. sum_list (map ?v (filter (\<lambda>r. purchase_date r = d) df)))
               = sum_list (map ?v df)"
    by (intro sum_by_bins) simp_all
  then show ?thesis
    by (simp add: create_daily_orders_df_eq [OF False] comp_def sum_skipna_map)
qed


section \<open>The freight rollup\<close>

lemma freight_keys: "map fst (freight_items_df df) = map fst (groupby product_id df)"
  by (simp add: freight_items_df_def comp_def case_prod_beta)

text \<open>
  Claim C3 says that products with equal freight sums come out in the order in which the
  frame first mentions them. \<^verbatim>\<open>groupby\<close> hands the groups over in ascending \<^verbatim>\<open>product_id\<close>
  order, whatever the order of the rows, and the sort that follows is not asked to be
  stable. In \<open>tie_df\<close> the frame mentions \<open>pb\<close> first; the rollup lists \<open>pa\<close> first. The
  same two rows in the other order reach the sort as the same frame, so that no way of
  ordering equal sums gives the first-mentioned product first for both.
\<close>

theorem freight_rollup_ties_in_product_order:
  "create_sum_freight_items_df tie_df = [(''pa'', 10), (''pb'', 10)]
   \<and> freight_rollup_as_specified tie_df = [(''pb'', 10), (''pa'', 10)]
   \<and> freight_items_df (rev tie_df) = freight_items_df tie_df
   \<and> freight_rollup_as_specified (rev tie_df) \<noteq> freight_rollup_as_specified tie_df"
  by code_simp

text \<open>
  Claim C3, as the code has it. The freight rollup has exactly one entry per
  \<^verbatim>\<open>product_id\<close> that is present in some row, the entry holds the sum of \<^verbatim>\<open>freight_value\<close>
  over the rows of that product, and the sums are non-increasing along the sequence.
  Nothing is promised about the order of equal sums.
\<close>

theorem freight_rollup_groups_sums_and_order:
  "distinct (map fst (create_sum_freight_items_df df))
   \<and> set (map fst (create_sum_freight_items_df df)) = {p. \<exists>r \<in> set df. product_id r = Some p}
   \<and> (\<forall>(p, v) \<in> set (create_sum_freight_items_df df).
         v = sum_skipna (map freight_value (filter (\<lambda>r. product_id r = Some p) df)))
   \<and> sorted_wrt (\<lambda>a b. snd a \<ge> snd b) (create_sum_freight_items_df df)"
proof -
  let ?g = "freight_items_df df"
  have out: "create_sum_freight_items_df df = sort_values_desc snd ?g"
    by (simp add: create_sum_freight_items_df_def)
  have "distinct (map fst ?g)"
    by (simp only: freight_keys distinct_groupby_keys)
  then have d: "distinct (map fst (create_sum_freight_items_df df))"
    by (simp only: out distinct_map_sort_values_desc)
  have "set (map fst (create_sum_freight_items_df df)) = set (map fst ?g)"
    by (simp only: out set_map set_sort_values_desc)
  then have k: "set (map fst (create_sum_freight_items_df df))
                  = {p. \<exists>r \<in> set df. product_id r = Some p}"
    by (simp only: freight_keys set_groupby_keys)
  have v: "\<forall>(p, v) \<in> set (create_sum_freight_items_df df).
             v = sum_skipna (map freight_value (filter (\<lambda>r. product_id r = Some p) df))"
    by (auto simp: out set_sort_values_desc freight_items_df_def groupby_member)
  have s: "sorted_wrt (\<lambda>a b. snd a \<ge> snd b) (create_sum_freight_items_df df)"
    by (simp only: out sorted_sort_values_desc)
  show ?thesis
    using d k v s by blast
qed

text \<open>Witness for C3: product \<open>pa\<close> of the sample, with a freight of 10 + 5.\<close>

theorem freight_rollup_groups_sums_and_order_witness:
  "(''pa'', 15) \<in> set (create_sum_freight_items_df sample_df)
   \<and> sum_skipna (map freight_value (filter (\<lambda>r. product_id r = Some ''pa'') sample_df)) = 15
   \<and> distinct (map fst (create_sum_freight_items_df sample_df))"
proof -
  have h: "(''pa'', 15) \<in> set (create_sum_freight_items_df sample_df)"
    by code_simp
  show ?thesis
    using h freight_rollup_groups_sums_and_order [of sample_df] by fastforce
qed


section \<open>Customers by state\<close>

text \<open>
  Claim C6 says that a missing state code forms a group of its own. \<^verbatim>\<open>groupby\<close> is called
  with its default \<^verbatim>\<open>dropna=True\<close>: the second row of \<open>missing_state_df\<close> has no state and
  appears in no group.
\<close>

theorem bystate_drops_missing_state:
  "map customer_state missing_state_df = [Some ''SP'', None]
   \<and> create_bystate_df missing_state_df = [(''SP'', 1)]"
  by code_simp

text \<open>
  Claim C6, as the code has it. The rollup has exactly one group per \<^verbatim>\<open>customer_state\<close>
  that is present in some row, whatever the code is, and the group holds the number of
  distinct present \<^verbatim>\<open>customer_id\<close> values among the rows of that state, not the number of
  rows. Rows without a state code are in no group.
\<close>

theorem bystate_groups_present_states:
  "distinct (map fst (create_bystate_df df))
   \<and> set (map fst (create_bystate_df df)) = {s. \<exists>r \<in> set df. customer_state r = Some s}
   \<and> (\<forall>(s, n) \<in> set (create_bystate_df df).
         n = card {c. \<exists>r \<in> set df. customer_state r = Some s \<and> customer_id r = Some c})"
proof -
  have keys: "map fst (create_bystate_df df) = map fst (groupby customer_state df)"
    by (simp add: create_bystate_df_def comp_def case_prod_beta)
  have "{v. Some v \<in> set (map customer_id (filter (\<lambda>r. customer_state r = Some s) df))}
          = {c. \<exists>r \<in> set df. customer_state r = Some s \<and> customer_id r = Some c}" for s
    by force
  then have "\<forall>(s, n) \<in> set (create_bystate_df df).
         n = card {c. \<exists>r \<in> set df. customer_state r = Some s \<and> customer_id r = Some c}"
    by (auto simp: create_bystate_df_def groupby_member nunique_card)
  then show ?thesis
    by (simp only: keys distinct_groupby_keys set_groupby_keys)
qed

text \<open>Witness for C6: the sample has one customer in \<open>RJ\<close>.\<close>

theorem bystate_groups_present_states_witness:
  "(''RJ'', 1) \<in> set (create_bystate_df sample_df)
   \<and> card {c. \<exists>r. r \<in> set sample_df \<and> customer_state r = Some ''RJ'' \<and> customer_id r = Some c} = 1
   \<and> distinct (map fst (create_bystate_df sample_df))"
proof -
  have h: "(''RJ'', 1) \<in> set (create_bystate_df sample_df)"
    by code_simp
  show ?thesis
    using h bystate_groups_present_states [of sample_df] by (fastforce simp: Bex_def)
qed


section \<open>The status and payment counters\<close>







section \<open>Recency, frequency, monetary\<close>

lemma apply_each_map_Inr:
  assumes "\<forall>x \<in> set xs. f (h x) = Inr (g x)"
  shows "apply_each f (map h xs) = Inr (map g xs)"
  using assms by (induction xs) auto

lemma dt_date_mono: "mono dt_date"
  by (simp add: mono_def dt_date_def zdiv_mono1)

text \<open>The date of the latest timestamp is the latest date.\<close>

lemma purchase_date_Max:
  assumes "rows \<noteq> []"
  shows "dt_date (Max (order_purchase_timestamp ` set rows)) = Max (purchase_date ` set rows)"
proof -
  have "dt_date (Max (order_purchase_timestamp ` set rows))
          = Max (dt_date ` order_purchase_timestamp ` set rows)"
    using assms by (intro mono_Max_commute dt_date_mono) simp_all
  then show ?thesis
    by (simp add: image_image purchase_date_def)
qed

lemma rfm_of_group:
  assumes "rows \<noteq> []" and "df \<noteq> []"
  shows "rfm_of (recent_date df)
           (c, series_max (map order_purchase_timestamp rows), f, m)
         = Inr \<lparr>rfm_customer_id = c, frequency = f, monetary = m,
                recency = Max (purchase_date ` set df) - Max (purchase_date ` set rows)\<rparr>"
proof -
  have "recent_date df = Some (Max (purchase_date ` set df))"
    using assms(2) series_max_eq [of "map purchase_date df"] by (simp add: recent_date_def)
  moreover have "series_max (map order_purchase_timestamp rows)
                   = Some (Max (order_purchase_timestamp ` set rows))"
    using assms(1) series_max_eq [of "map order_purchase_timestamp rows"] by simp
  ultimately show ?thesis
    by (simp add: rfm_of_def purchase_date_Max [OF assms(1)])
qed

text \<open>
  \<open>create_rfm_df\<close> never raises: a group has at least one row, so the frame has one too and
  both operands of the subtraction of line 89 are dates.
\<close>

lemma create_rfm_df_eq:
  "create_rfm_df df =
     Inr (map (\<lambda>(c, rows).
                 \<lparr>rfm_customer_id = c,
                  frequency = nunique (map order_id rows),
                  monetary = sum_skipna (map total_price rows),
                  recency = Max (purchase_date ` set df) - Max (purchase_date ` set rows)\<rparr>)
              (groupby customer_unique_id df))"
proof -
  have "rfm_of (recent_date df)
          (case g of (c, rows) \<Rightarrow>
             (c, series_max (map order_purchase_timestamp rows),
              nunique (map order_id rows), sum_skipna (map total_price rows)))
        = Inr (case g of (c, rows) \<Rightarrow>
                 \<lparr>rfm_customer_id = c,
                  frequency = nunique (map order_id rows),
                  monetary = sum_skipna (map total_price rows),
                  recency = Max (purchase_date ` set df) - Max (purchase_date ` set rows)\<rparr>)"
    if "g \<in> set (groupby customer_unique_id df)" for g
  proof -
    obtain c rows where g: "g = (c, rows)"
      by (cases g)
    with that obtain r where "r \<in> set df" and "customer_unique_id r = Some c"
      and rows: "rows = filter (\<lambda>r. customer_unique_id r = Some c) df"
      by (auto simp: groupby_member)
    then have "rows \<noteq> []" and "df \<noteq> []"
      by (auto simp: filter_empty_conv)
    then show ?thesis
      by (simp add: g rfm_of_group)
  qed
  then show ?thesis
    unfolding create_rfm_df_def rfm_groups_def
    by (intro apply_each_map_Inr) blast
qed

lemma Max_group_le:
  assumes "r \<in> set df" and "key r = Some k"
  shows "Max (purchase_date ` set (filter (\<lambda>r. key r = Some k) df)) \<le> Max (purchase_date ` set df)"
  using assms by (intro Max_mono) auto

lemma sample_rfm:
  "create_rfm_df sample_df =
     Inr [\<lparr>rfm_customer_id = ''c1'', frequency = 2, monetary = 110, recency = 0\<rparr>,
          \<lparr>rfm_customer_id = ''c2'', frequency = 1, monetary = 20, recency = 2\<rparr>]"
  by code_simp

text \<open>
  Claim C2 says that on every non-empty table one customer at least has recency 0.
  \<^verbatim>\<open>groupby\<close> leaves a row without \<^verbatim>\<open>customer_unique_id\<close> out of every group, while line
  88 takes the latest date over all rows, that one included. In \<open>missing_customer_df\<close>
  the latest purchase has no customer: the one customer of the table is four days behind
  it, and nobody has recency 0.
\<close>

theorem rfm_latest_purchase_without_customer:
  "missing_customer_df \<noteq> []
   \<and> create_rfm_df missing_customer_df
       = Inr [\<lparr>rfm_customer_id = ''c1'', frequency = 1, monetary = 50, recency = 4\<rparr>]"
  by code_simp

text \<open>
  Claim C2, as the code has it. For every table the RFM table has one row per distinct
  \<^verbatim>\<open>customer_unique_id\<close> that some row carries; its recency is the latest purchase date
  over all rows of the table, those without a customer included, minus the latest
  purchase date of that customer, in days; no recency is negative; and a customer with
  recency 0 exists exactly when some row of the latest purchase date carries a
  \<^verbatim>\<open>customer_unique_id\<close>.
\<close>

theorem rfm_recency_from_latest_purchase:
  "\<exists>rfm. create_rfm_df df = Inr rfm
     \<and> distinct (map rfm_customer_id rfm)
     \<and> set (map rfm_customer_id rfm) = {c. \<exists>r \<in> set df. customer_unique_id r = Some c}
     \<and> (\<forall>g \<in> set rfm.
           recency g = Max (purchase_date ` set df)
                       - Max (purchase_date `
                           {r \<in> set df. customer_unique_id r = Some (rfm_customer_id g)}))
     \<and> (\<forall>g \<in> set rfm. recency g \<ge> 0)
     \<and> ((\<exists>g \<in> set rfm. recency g = 0)
          \<longleftrightarrow> (\<exists>r \<in> set df. customer_unique_id r \<noteq> None
                          \<and> purchase_date r = Max (purchase_date ` set df)))"
proof -
  let ?F = "\<lambda>(c, rows).
              \<lparr>rfm_customer_id = c,
               frequency = nunique (map order_id rows),
               monetary = sum_skipna (map total_price rows),
               recency = Max (purchase_date ` set df) - Max (purchase_date ` set rows)\<rparr>"
  let ?rfm = "map ?F (groupby customer_unique_id df)"
  let ?top = "Max (purchase_date ` set df)"
  have ids: "map rfm_customer_id ?rfm = map fst (groupby customer_unique_id df)"
    by (simp add: comp_def case_prod_beta)
  have rec: "recency g = ?top
                 - Max (purchase_date ` {r \<in> set df. customer_unique_id r = Some (rfm_customer_id g)})"
    and nonneg: "recency g \<ge> 0"
    if "g \<in> set ?rfm" for g
  proof -
    from that obtain c r where g: "g = ?F (c, filter (\<lambda>r. customer_unique_id r = Some c) df)"
      and r: "r \<in> set df" "customer_unique_id r = Some c"
      by (auto simp: groupby_member)
    show "recency g = ?top
                 - Max (purchase_date ` {r \<in> set df. customer_unique_id r = Some (rfm_customer_id g)})"
      by (simp add: g)
    show "recency g \<ge> 0"
      using Max_group_le [of r df customer_unique_id c] r by (simp add: g)
  qed
  have zero_if: "\<exists>g \<in> set ?rfm. recency g = 0"
    if "\<exists>r \<in> set df. customer_unique_id r \<noteq> None \<and> purchase_date r = ?top"
  proof -
    from that obtain r c where r: "r \<in> set df" and c: "customer_unique_id r = Some c"
      and top: "purchase_date r = ?top"
      by auto
    let ?rows = "filter (\<lambda>r. customer_unique_id r = Some c) df"
    have "purchase_date r \<le> Max (purchase_date ` set ?rows)"
      using r c by (intro Max_ge) auto
    with Max_group_le [of r df customer_unique_id c] r c top
    have "Max (purchase_date ` set ?rows) = ?top"
      by simp
    moreover have "?F (c, ?rows) \<in> set ?rfm"
      using r c by (auto simp: groupby_member intro!: image_eqI [where x = "(c, ?rows)"])
    ultimately show ?thesis
      by (intro bexI [where x = "?F (c, ?rows)"]) simp_all
  qed
  have zero_only_if: "\<exists>r \<in> set df. customer_unique_id r \<noteq> None \<and> purchase_date r = ?top"
    if "\<exists>g \<in> set ?rfm. recency g = 0"
  proof -
    from that obtain c r0 where r0: "r0 \<in> set df" "customer_unique_id r0 = Some c"
      and eq: "Max (purchase_date ` set (filter (\<lambda>r. customer_unique_id r = Some c) df)) = ?top"
      by (auto simp: groupby_member)
    let ?rows = "filter (\<lambda>r. customer_unique_id r = Some c) df"
    have "?rows \<noteq> []"
      using r0 by (auto simp: filter_empty_conv)
    then have "Max (purchase_date ` set ?rows) \<in> purchase_date ` set ?rows"
      by (intro Max_in) (auto simp: filter_empty_conv)
    then obtain r where "r \<in> set ?rows" and "purchase_date r = Max (purchase_date ` set ?rows)"
      by auto
    with eq show ?thesis
      by (intro bexI [where x = r]) auto
  qed
  have "distinct (map rfm_customer_id ?rfm)"
    by (simp only: ids distinct_groupby_keys)
  moreover have "set (map rfm_customer_id ?rfm) = {c. \<exists>r \<in> set df. customer_unique_id r = Some c}"
    by (simp only: ids set_groupby_keys)
  moreover have "(\<exists>g \<in> set ?rfm. recency g = 0)
          \<longleftrightarrow> (\<exists>r \<in> set df. customer_unique_id r \<noteq> None \<and> purchase_date r = ?top)"
    using zero_if zero_only_if by blast
  ultimately show ?thesis
    using create_rfm_df_eq [of df] rec nonneg by blast
qed

text \<open>
  Witness for C2: in the sample the purchase of the last day is one of customer \<open>c1\<close>,
  who has recency 0.
\<close>

theorem rfm_recency_from_latest_purchase_witness:
  "order_line ''o3'' ''c1'' ''SP'' ''pb'' 25 5 1515142800 \<in> set sample_df
   \<and> create_rfm_df sample_df
       = Inr [\<lparr>rfm_customer_id = ''c1'', frequency = 2, monetary = 110, recency = 0\<rparr>,
              \<lparr>rfm_customer_id = ''c2'', frequency = 1, monetary = 20, recency = 2\<rparr>]
   \<and> Max (purchase_date ` set sample_df)
       - Max (purchase_date ` {r. r \<in> set sample_df \<and> customer_unique_id r = Some ''c2''}) = 2"
proof -
  have h1: "order_line ''o3'' ''c1'' ''SP'' ''pb'' 25 5 1515142800 \<in> set sample_df"
    by (simp add: sample_df_def)
  obtain rfm where a: "create_rfm_df sample_df = Inr rfm"
    and b: "\<forall>g \<in> set rfm.
              recency g = Max (purchase_date ` set sample_df)
                          - Max (purchase_date `
                              {r \<in> set sample_df. customer_unique_id r = Some (rfm_customer_id g)})"
    using rfm_recency_from_latest_purchase [of sample_df] by blast
  from a have rfm: "rfm = [\<lparr>rfm_customer_id = ''c1'', frequency = 2, monetary = 110, recency = 0\<rparr>,
                          \<lparr>rfm_customer_id = ''c2'', frequency = 1, monetary = 20, recency = 2\<rparr>]"
    by (simp add: sample_rfm)
  with b have "Max (purchase_date ` set sample_df)
       - Max (purchase_date ` {r. r \<in> set sample_df \<and> customer_unique_id r = Some ''c2''}) = 2"
    by simp
  with h1 show ?thesis
    by (simp add: sample_rfm)
qed

text \<open>
  Claim C5: a customer with k rows over m distinct orders has frequency m. The RFM table
  has exactly one row for each \<^verbatim>\<open>customer_unique_id\<close> that some row of the frame carries;
  its frequency is the number of distinct \<^verbatim>\<open>order_id\<close> values among that customer's rows,
  which is at most the number of those rows.
\<close>

theorem rfm_frequency_counts_distinct_orders:
  assumes "r \<in> set df" and "customer_unique_id r = Some c"
  shows "\<exists>rfm g. create_rfm_df df = Inr rfm
           \<and> filter (\<lambda>g. rfm_customer_id g = c) rfm = [g]
           \<and> frequency g = card {oid. \<exists>r \<in> set df. customer_unique_id r = Some c \<and> order_id r = Some oid}
           \<and> frequency g \<le> length (filter (\<lambda>r. customer_unique_id r = Some c) df)"
proof -
  let ?F = "\<lambda>(c, rows).
              \<lparr>rfm_customer_id = c,
               frequency = nunique (map order_id rows),
               monetary = sum_skipna (map total_price rows),
               recency = Max (purchase_date ` set df) - Max (purchase_date ` set rows)\<rparr>"
  let ?rows = "filter (\<lambda>r. customer_unique_id r = Some c) df"
  have "filter (\<lambda>g. rfm_customer_id g = c) (map ?F (groupby customer_unique_id df))
          = map ?F (filter (\<lambda>g. fst g = c) (groupby customer_unique_id df))"
    by (simp add: filter_map comp_def case_prod_beta)
  then have one: "filter (\<lambda>g. rfm_customer_id g = c) (map ?F (groupby customer_unique_id df))
                    = [?F (c, ?rows)]"
    using groupby_filter_key [of r df customer_unique_id c] assms by simp
  have "{v. Some v \<in> set (map order_id ?rows)}
          = {oid. \<exists>r \<in> set df. customer_unique_id r = Some c \<and> order_id r = Some oid}"
    by force
  then have freq: "frequency (?F (c, ?rows))
          = card {oid. \<exists>r \<in> set df. customer_unique_id r = Some c \<and> order_id r = Some oid}"
    by (simp add: nunique_card)
  have "length (remdups (present (map order_id ?rows))) \<le> length (present (map order_id ?rows))"
    by (rule length_remdups_leq)
  also have "\<dots> \<le> length ?rows"
    using length_present_le [of "map order_id ?rows"] by simp
  finally have le: "frequency (?F (c, ?rows)) \<le> length ?rows"
    by (simp add: nunique_def)
  show ?thesis
    using create_rfm_df_eq [of df] one freq le by blast
qed

text \<open>
  Witness for C5: customer \<open>c1\<close> of the sample has three rows in two orders, and the
  frequency of its one RFM row is 2.
\<close>

theorem rfm_frequency_counts_distinct_orders_witness:
  "order_line ''o1'' ''c1'' ''SP'' ''pb'' 40 10 1514800800 \<in> set sample_df
   \<and> customer_unique_id (order_line ''o1'' ''c1'' ''SP'' ''pb'' 40 10 1514800800) = Some ''c1''
   \<and> length (filter (\<lambda>r. customer_unique_id r = Some ''c1'') sample_df) = 3
   \<and> card {oid. \<exists>r. r \<in> set sample_df \<and> customer_unique_id r = Some ''c1''
                     \<and> order_id r = Some oid} = 2"
proof -
  have h1: "order_line ''o1'' ''c1'' ''SP'' ''pb'' 40 10 1514800800 \<in> set sample_df"
    by (simp add: sample_df_def)
  have h2: "customer_unique_id (order_line ''o1'' ''c1'' ''SP'' ''pb'' 40 10 1514800800) = Some ''c1''"
    by (simp add: order_line_def)
  have h3: "length (filter (\<lambda>r. customer_unique_id r = Some ''c1'') sample_df) = 3"
    by code_simp
  obtain rfm g where a: "create_rfm_df sample_df = Inr rfm"
    and b: "filter (\<lambda>g. rfm_customer_id g = ''c1'') rfm = [g]"
    and c: "frequency g = card {oid. \<exists>r \<in> set sample_df.
                                   customer_unique_id r = Some ''c1'' \<and> order_id r = Some oid}"
    using rfm_frequency_counts_distinct_orders [OF h1 h2] by blast
  from a b have "frequency g = 2"
    by (auto simp: sample_rfm)
  with c have "card {oid. \<exists>r. r \<in> set sample_df \<and> customer_unique_id r = Some ''c1''
                            \<and> order_id r = Some oid} = 2"
    by (simp add: Bex_def)
  with h1 h2 h3 show ?thesis
    by blast
qed


section \<open>The date-range filter\<close>

text \<open>
  Applied to a frame, the expression of lines 122-123 keeps exactly the rows whose
  purchase date lies between the two bounds, both included, each as often as the frame
  has it and in the order of the frame.
\<close>

lemma filter_date_range_selects:
  "mset (filter_date_range df start_date end_date)
     = filter_mset (\<lambda>r. start_date \<le> purchase_date r \<and> purchase_date r \<le> end_date) (mset df)
   \<and> subseq (filter_date_range df start_date end_date) df"
  by (simp add: filter_date_range_def date_mask_def)

text \<open>
  Claim C8 says that the filter returns the rows of the range. In the script it returns
  nothing: the table of the file is bound to \<^verbatim>\<open>all_df\<close> and never to \<^verbatim>\<open>df\<close>, so that line
  106 raises \<^verbatim>\<open>NameError\<close> for every file and every range, and line 122 is not reached.
\<close>

theorem script_stops_at_unbound_df:
  "script csv start_date end_date = Inl NameError"
  by (simp add: script_def read_name_def)


section \<open>A range without rows\<close>





section \<open>Two runs on the same rows\<close>




end
